theory Spec2Isabelle
  imports Main "HOL-Library.AList"
begin

text \<open>
  A shallow embedding of \<^verbatim>\<open>js/main.js\<close>, the script of the MindWell page: the navigation
  controller, the crisis modal and the debounce utility, each function as a function on
  an explicit state, and the properties of them that the specification states.
\<close>

section \<open>DOM elements\<close>

text \<open>
  An element of the page, as far as \<^verbatim>\<open>js/main.js\<close> reads or writes it: its tag name (upper
  case, as \<^verbatim>\<open>tagName\<close> reports it for HTML elements), its class list (a \<^verbatim>\<open>DOMTokenList\<close>,
  an ordered list of tokens) and its attributes other than \<^verbatim>\<open>class\<close>, in document order.
\<close>

record element =
  tagName :: string
  classList :: "string list"
  attributes :: "(string \<times> string) list"

text \<open>\<^verbatim>\<open>getAttribute\<close> returns \<^verbatim>\<open>null\<close> (here \<open>None\<close>) for an attribute that is absent.\<close>

definition getAttribute :: "string \<Rightarrow> element \<Rightarrow> string option" where
  "getAttribute name e = map_of (attributes e) name"

text \<open>\<^verbatim>\<open>setAttribute\<close> replaces the value of an attribute in place and appends a new one.\<close>

definition setAttribute :: "string \<Rightarrow> string \<Rightarrow> element \<Rightarrow> element" where
  "setAttribute name v e = e\<lparr>attributes := AList.update name v (attributes e)\<rparr>"

definition classList_contains :: "string \<Rightarrow> element \<Rightarrow> bool" where
  "classList_contains t e = (t \<in> set (classList e))"

definition classList_add :: "string \<Rightarrow> element \<Rightarrow> element" where
  "classList_add t e =
     (if t \<in> set (classList e) then e else e\<lparr>classList := classList e @ [t]\<rparr>)"

definition classList_remove :: "string \<Rightarrow> element \<Rightarrow> element" where
  "classList_remove t e = e\<lparr>classList := removeAll t (classList e)\<rparr>"

definition classList_toggle :: "string \<Rightarrow> element \<Rightarrow> element" where
  "classList_toggle t e =
     (if t \<in> set (classList e) then classList_remove t e
      else e\<lparr>classList := classList e @ [t]\<rparr>)"

text \<open>
  A node of a tree built by the script itself (the emergency modal): an element with an
  identity and its child nodes, or a text node.
\<close>

datatype node = Element nat element "node list" | Text string

text \<open>
  The two closures that \<^verbatim>\<open>createEmergencyModal\<close> registers as click listeners. Each captures
  the modal it was created for, here by the identity of the modal's root element.
  \<open>CloseClick m\<close> is \<^verbatim>\<open>() => { modal.remove(); }\<close>,
  \<open>BackdropClick m\<close> is \<^verbatim>\<open>(e) => { if (e.target === modal) { modal.remove(); } }\<close>.
\<close>

datatype listener = CloseClick nat | BackdropClick nat

datatype error = TypeError string

section \<open>Application state\<close>

text \<open>
  The state that the handlers of \<^verbatim>\<open>js/main.js\<close> read and write, in one record:
  \<^item> \<open>navigationActive\<close>, \<open>currentPage\<close>: the fields of \<^verbatim>\<open>AppState\<close> that are ever assigned
    (\<^verbatim>\<open>currentUser\<close> and \<^verbatim>\<open>moodData\<close> are never read or written);
  \<^item> \<open>navToggle\<close>, \<open>navMenu\<close>, \<open>navLinks\<close>: the cached references of \<^verbatim>\<open>DOM\<close>, as addresses
    into \<open>heap\<close>; \<open>None\<close> is the \<^verbatim>\<open>null\<close> that \<^verbatim>\<open>querySelector\<close> returns when nothing matches;
  \<^item> \<open>heap\<close>: the elements of the page's own markup, by address, so that two references to
    one element see each other's writes;
  \<^item> \<open>innerWidth\<close>, \<open>location_hash\<close>: \<^verbatim>\<open>window.innerWidth\<close> and \<^verbatim>\<open>window.location.hash\<close>;
  \<^item> \<open>sectionOffsetTop\<close>: for an id, the \<^verbatim>\<open>offsetTop\<close> of the element that
    \<^verbatim>\<open>document.getElementById\<close> finds, \<open>None\<close> when there is none;
    \<open>headerOffsetHeight\<close>: the \<^verbatim>\<open>offsetHeight\<close> of the first \<^verbatim>\<open>.header\<close> element, if any;
  \<^item> \<open>scrollRequest\<close>: the \<^verbatim>\<open>top\<close> of the last \<^verbatim>\<open>window.scrollTo\<close> request;
  \<^item> \<open>bodyClassList\<close>: the class list of \<^verbatim>\<open>document.body\<close>;
  \<^item> \<open>bodyChildren\<close>: the nodes that the script has appended to \<^verbatim>\<open>document.body\<close>, in order;
  \<^item> \<open>clickListeners\<close>: the click listeners registered on script-built nodes, in
    registration order, each with the identity of the node it is registered on;
  \<^item> \<open>nextId\<close>: the identity that the next created element receives;
  \<^item> \<open>activeElement\<close>: the script-built element that holds the keyboard focus, if any;
  \<^item> \<open>console\<close>: the lines written by \<^verbatim>\<open>console.log\<close>.
\<close>

record app =
  navigationActive :: bool
  currentPage :: string
  navToggle :: "nat option"
  navMenu :: "nat option"
  navLinks :: "nat list"
  heap :: "nat \<rightharpoonup> element"
  innerWidth :: int
  location_hash :: string
  sectionOffsetTop :: "string \<Rightarrow> int option"
  headerOffsetHeight :: "int option"
  scrollRequest :: "int option"
  bodyClassList :: "string list"
  bodyChildren :: "node list"
  clickListeners :: "(nat \<times> listener) list"
  nextId :: nat
  activeElement :: "nat option"
  console :: "string list"

text \<open>
  A write through a reference: the element at the address is replaced by its image. A
  reference the script holds always points to a live element, so the \<open>None\<close> branch is
  never taken by the program; it leaves the heap as it is.
\<close>

definition modify :: "nat \<Rightarrow> (element \<Rightarrow> element) \<Rightarrow> app \<Rightarrow> app" where
  "modify r f s =
     (case heap s r of None \<Rightarrow> s | Some e \<Rightarrow> s\<lparr>heap := (heap s)(r \<mapsto> f e)\<rparr>)"

text \<open>
  A guarded write, \<^verbatim>\<open>if (ref) { ref.m() }\<close> or \<^verbatim>\<open>ref?.m()\<close>: skipped when the reference is
  \<^verbatim>\<open>null\<close>.
\<close>

definition guarded :: "nat option \<Rightarrow> (element \<Rightarrow> element) \<Rightarrow> app \<Rightarrow> app" where
  "guarded ref f s = (case ref of None \<Rightarrow> s | Some r \<Rightarrow> modify r f s)"

definition attributeOf :: "app \<Rightarrow> nat \<Rightarrow> string \<Rightarrow> string option" where
  "attributeOf s r name = (case heap s r of None \<Rightarrow> None | Some e \<Rightarrow> getAttribute name e)"

definition hasClass :: "app \<Rightarrow> nat \<Rightarrow> string \<Rightarrow> bool" where
  "hasClass s r t = (case heap s r of None \<Rightarrow> False | Some e \<Rightarrow> classList_contains t e)"

text \<open>\<^verbatim>\<open>Boolean.prototype.toString\<close>.\<close>

definition bool_toString :: "bool \<Rightarrow> string" where
  "bool_toString b = (if b then ''true'' else ''false'')"

section \<open>Navigation controller\<close>

text \<open>\<^verbatim>\<open>toggleMobileNav\<close>, lines 169 to 184.\<close>

definition toggleMobileNav :: "app \<Rightarrow> app" where
  "toggleMobileNav s =
     (let s1 = s\<lparr>navigationActive := \<not> navigationActive s\<rparr>;
          s2 = guarded (navMenu s1) (classList_toggle ''active'') s1;
          s3 = guarded (navToggle s2) (classList_toggle ''active'') s2;
          expanded = navigationActive s3;
          s4 = guarded (navToggle s3) (setAttribute ''aria-expanded'' (bool_toString expanded)) s3
      in guarded (navMenu s4) (setAttribute ''aria-hidden'' (bool_toString (\<not> expanded))) s4)"

text \<open>\<^verbatim>\<open>updateMobileNavigation\<close>, lines 389 to 397.\<close>

definition updateMobileNavigation :: "app \<Rightarrow> app" where
  "updateMobileNavigation s =
     (let isMobile = (innerWidth s \<le> 768)
      in if \<not> isMobile \<and> navigationActive s then
           (let s1 = s\<lparr>navigationActive := False\<rparr>;
                s2 = guarded (navMenu s1) (classList_remove ''active'') s1
            in guarded (navToggle s2) (classList_remove ''active'') s2)
         else s)"

text \<open>\<^verbatim>\<open>handleWindowResize\<close>, lines 293 to 301.\<close>

definition handleWindowResize :: "app \<Rightarrow> app" where
  "handleWindowResize s =
     (let s1 = (if innerWidth s > 768 \<and> navigationActive s then toggleMobileNav s else s)
      in updateMobileNavigation s1)"

text \<open>
  A resize event: the browser has changed \<^verbatim>\<open>window.innerWidth\<close> to \<open>w\<close>, then runs the one
  listener registered for \<^verbatim>\<open>resize\<close> (line 107).
\<close>

definition dispatchResize :: "int \<Rightarrow> app \<Rightarrow> app" where
  "dispatchResize w s = handleWindowResize (s\<lparr>innerWidth := w\<rparr>)"

text \<open>
  \<^verbatim>\<open>updateActiveNavigation\<close>, lines 373 to 384. \<^verbatim>\<open>substring(1)\<close> drops the first character;
  the empty string is falsy, so \<^verbatim>\<open>|| 'home'\<close> replaces it. The comparison \<^verbatim>\<open>===\<close> with a
  string is false for the \<^verbatim>\<open>null\<close> of a missing attribute.
\<close>

definition currentHash :: "app \<Rightarrow> string" where
  "currentHash s = (let h = drop 1 (location_hash s) in if h = [] then ''home'' else h)"

definition markLink :: "string \<Rightarrow> element \<Rightarrow> element" where
  "markLink hash e =
     (if getAttribute ''href'' e = Some (''#'' @ hash) then classList_add ''active'' e
      else classList_remove ''active'' e)"

definition updateActiveNavigation :: "app \<Rightarrow> app" where
  "updateActiveNavigation s =
     (let hash = currentHash s
      in fold (\<lambda>link. modify link (markLink hash)) (navLinks s) s)"

text \<open>\<^verbatim>\<open>scrollToSection\<close>, lines 357 to 368.\<close>

definition scrollToSection :: "string \<Rightarrow> app \<Rightarrow> app" where
  "scrollToSection sectionId s =
     (case sectionOffsetTop s sectionId of
        None \<Rightarrow> s
      | Some offsetTop \<Rightarrow>
          (let headerHeight = (case headerOffsetHeight s of None \<Rightarrow> 0 | Some h \<Rightarrow> h);
               targetPosition = offsetTop - headerHeight
           in s\<lparr>scrollRequest := Some targetPosition\<rparr>))"

text \<open>\<^verbatim>\<open>trackNavigation\<close>, lines 514 to 517; \<^verbatim>\<open>console.log\<close> prints \<^verbatim>\<open>null\<close> for a missing value.\<close>

definition trackNavigation :: "string option \<Rightarrow> app \<Rightarrow> app" where
  "trackNavigation href s =
     s\<lparr>console := console s @
        [''Navigation tracked: '' @ (case href of None \<Rightarrow> ''null'' | Some h \<Rightarrow> h)]\<rparr>"

text \<open>
  \<^verbatim>\<open>handleNavigation\<close>, lines 189 to 212, for a click whose target is the element at
  address \<open>link\<close>. The result is \<open>Inr (prevented, s')\<close> when the handler returns, with
  \<open>prevented\<close> telling whether it called \<^verbatim>\<open>event.preventDefault()\<close>, and \<open>Inl (e, s')\<close> when
  it throws \<open>e\<close>, with the state \<open>s'\<close> that the statements before the throw have left.
  Line 203 calls the method \<^verbatim>\<open>startsWith\<close> on \<^verbatim>\<open>href\<close> with no guard: on \<^verbatim>\<open>null\<close> that is a
  \<^verbatim>\<open>TypeError\<close>.
\<close>

definition handleNavigation :: "nat \<Rightarrow> app \<Rightarrow> (error \<times> app) + (bool \<times> app)" where
  "handleNavigation link s =
     (let href = attributeOf s link ''href'';
          s1 = fold (\<lambda>navLink. modify navLink (classList_remove ''active'')) (navLinks s) s;
          s2 = modify link (classList_add ''active'') s1;
          s3 = (if navigationActive s2 then toggleMobileNav s2 else s2)
      in case href of
           None \<Rightarrow> Inl (TypeError ''Cannot read properties of null (reading startsWith)'', s3)
         | Some h \<Rightarrow>
             if take 1 h = ''#'' then
               (let targetId = drop 1 h;
                    s4 = scrollToSection targetId s3;
                    s5 = s4\<lparr>currentPage := targetId\<rparr>
                in Inr (True, trackNavigation href s5))
             else Inr (False, trackNavigation href s3))"

text \<open>
  \<^verbatim>\<open>handleKeyboardNavigation\<close>, lines 319 to 329, for a keydown event with the given
  \<^verbatim>\<open>key\<close>.
\<close>

definition handleKeyboardNavigation :: "string \<Rightarrow> app \<Rightarrow> app" where
  "handleKeyboardNavigation key s =
     (let s1 = (if key = ''Escape'' \<and> navigationActive s then toggleMobileNav s else s)
      in if key = ''Tab''
         then s1\<lparr>bodyClassList :=
                  (if ''keyboard-nav'' \<in> set (bodyClassList s1) then bodyClassList s1
                   else bodyClassList s1 @ [''keyboard-nav''])\<rparr>
         else s1)"

section \<open>Crisis modal controller\<close>

text \<open>
  The elements of a tree in document order, each with its identity; the first is the
  root. \<^verbatim>\<open>querySelector\<close> searches the descendants of the element it is called on, in this
  order, and returns the first match or \<^verbatim>\<open>null\<close>. A class selector matches a token of the
  class list; a type selector matches the tag name (of an HTML element, in any case).
\<close>

fun elementsOf :: "node \<Rightarrow> (nat \<times> element) list" where
  "elementsOf (Text t) = []"
| "elementsOf (Element i e kids) = (i, e) # concat (map elementsOf kids)"

fun descendants :: "node \<Rightarrow> (nat \<times> element) list" where
  "descendants (Text t) = []"
| "descendants (Element i e kids) = concat (map elementsOf kids)"

definition querySelector_class :: "string \<Rightarrow> node \<Rightarrow> (nat \<times> element) option" where
  "querySelector_class c n = find (\<lambda>(i, e). c \<in> set (classList e)) (descendants n)"

definition querySelector_tag :: "string \<Rightarrow> node \<Rightarrow> (nat \<times> element) option" where
  "querySelector_tag t n = find (\<lambda>(i, e). tagName e = t) (descendants n)"

text \<open>
  The propagation path of an event inside a tree: the identities from the target up to
  the root, target first; empty when the target is not in the tree.
\<close>

fun pathTo :: "nat \<Rightarrow> node \<Rightarrow> nat list" where
  "pathTo t (Text x) = []"
| "pathTo t (Element i e kids) =
     (if i = t then [i]
      else (case filter (\<lambda>p. p \<noteq> []) (map (pathTo t) kids) of
              [] \<Rightarrow> []
            | p # ps \<Rightarrow> p @ [i]))"

definition isNode :: "nat \<Rightarrow> node \<Rightarrow> bool" where
  "isNode m c = (case c of Element i e kids \<Rightarrow> i = m | Text t \<Rightarrow> False)"

text \<open>
  What lines 416 to 440 build: \<^verbatim>\<open>document.createElement('div')\<close>, the class name
  \<^verbatim>\<open>emergency-modal\<close>, and the parse of the \<^verbatim>\<open>innerHTML\<close> template. The root receives the
  identity \<open>n\<close> and the elements of the template the next ones, in document order. The
  text nodes that hold only the white space between two tags are left out. The heading
  starts with U+1F6A8, written as its four UTF-8 bytes.
\<close>

definition emergencyModalTree :: "nat \<Rightarrow> node" where
  "emergencyModalTree n =
     Element n \<lparr>tagName = ''DIV'', classList = [''emergency-modal''], attributes = []\<rparr>
      [Element (n + 1)
         \<lparr>tagName = ''DIV'', classList = [''emergency-modal-content''], attributes = []\<rparr>
         [Element (n + 2) \<lparr>tagName = ''H2'', classList = [], attributes = []\<rparr>
            [Text ([CHR 0xF0, CHR 0x9F, CHR 0x9A, CHR 0xA8] @ '' Emergency Resources'')],
          Element (n + 3)
            \<lparr>tagName = ''DIV'', classList = [''emergency-resources''], attributes = []\<rparr>
            [Element (n + 4)
               \<lparr>tagName = ''DIV'', classList = [''emergency-item''], attributes = []\<rparr>
               [Element (n + 5) \<lparr>tagName = ''H3'', classList = [], attributes = []\<rparr>
                  [Text ''Immediate Crisis Support''],
                Element (n + 6) \<lparr>tagName = ''P'', classList = [], attributes = []\<rparr>
                  [Element (n + 7) \<lparr>tagName = ''STRONG'', classList = [], attributes = []\<rparr>
                     [Text ''988 Suicide & Crisis Lifeline'']],
                Element (n + 8)
                  \<lparr>tagName = ''A'', classList = [''btn'', ''btn-emergency''],
                   attributes = [(''href'', ''tel:988'')]\<rparr>
                  [Text ''Call 988'']],
             Element (n + 9)
               \<lparr>tagName = ''DIV'', classList = [''emergency-item''], attributes = []\<rparr>
               [Element (n + 10) \<lparr>tagName = ''H3'', classList = [], attributes = []\<rparr>
                  [Text ''Emergency Services''],
                Element (n + 11) \<lparr>tagName = ''P'', classList = [], attributes = []\<rparr>
                  [Element (n + 12) \<lparr>tagName = ''STRONG'', classList = [], attributes = []\<rparr>
                     [Text ''911 for immediate emergency'']],
                Element (n + 13)
                  \<lparr>tagName = ''A'', classList = [''btn'', ''btn-emergency''],
                   attributes = [(''href'', ''tel:911'')]\<rparr>
                  [Text ''Call 911'']],
             Element (n + 14)
               \<lparr>tagName = ''DIV'', classList = [''emergency-item''], attributes = []\<rparr>
               [Element (n + 15) \<lparr>tagName = ''H3'', classList = [], attributes = []\<rparr>
                  [Text ''Crisis Text Line''],
                Element (n + 16) \<lparr>tagName = ''P'', classList = [], attributes = []\<rparr>
                  [Element (n + 17) \<lparr>tagName = ''STRONG'', classList = [], attributes = []\<rparr>
                     [Text ''Text HOME to 741741'']],
                Element (n + 18)
                  \<lparr>tagName = ''A'', classList = [''btn'', ''btn-help''],
                   attributes = [(''href'', ''sms:741741'')]\<rparr>
                  [Text ''Text Support'']]],
          Element (n + 19)
            \<lparr>tagName = ''BUTTON'', classList = [''btn'', ''btn-secondary'', ''close-modal''],
             attributes = []\<rparr>
            [Text ''Close'']]]"

text \<open>
  \<^verbatim>\<open>createEmergencyModal\<close>, lines 415 to 454: the tree, then the two listeners. The first
  is registered on the element that \<^verbatim>\<open>querySelector('.close-modal')\<close> finds, if any; the
  second on the modal itself. The function returns the modal; it does not insert it.
\<close>

definition createEmergencyModal :: "app \<Rightarrow> node \<times> app" where
  "createEmergencyModal s =
     (let n = nextId s;
          modal = emergencyModalTree n;
          s1 = s\<lparr>nextId := n + 20\<rparr>;
          s2 = (case querySelector_class ''close-modal'' modal of
                  None \<Rightarrow> s1
                | Some (b, e) \<Rightarrow> s1\<lparr>clickListeners := clickListeners s1 @ [(b, CloseClick n)]\<rparr>);
          s3 = s2\<lparr>clickListeners := clickListeners s2 @ [(n, BackdropClick n)]\<rparr>
      in (modal, s3))"

text \<open>
  \<^verbatim>\<open>showEmergencyResources\<close>, lines 402 to 410: build, append to the body, focus the first
  \<^verbatim>\<open>button\<close> of the modal if there is one.
\<close>

definition showEmergencyResources :: "app \<Rightarrow> app" where
  "showEmergencyResources s =
     (case createEmergencyModal s of
        (modal, s1) \<Rightarrow>
          (let s2 = s1\<lparr>bodyChildren := bodyChildren s1 @ [modal]\<rparr>
           in case querySelector_tag ''BUTTON'' modal of
                None \<Rightarrow> s2
              | Some (b, e) \<Rightarrow> s2\<lparr>activeElement := Some b\<rparr>))"

text \<open>
  \<^verbatim>\<open>modal.remove()\<close>: the node leaves its parent's children; a node that has no parent is
  left alone. The only parent a modal ever has is the body. An element that held the
  focus loses it when it leaves the document.
\<close>

definition removeNode :: "nat \<Rightarrow> app \<Rightarrow> app" where
  "removeNode m s =
     (let gone = concat (map (\<lambda>c. map fst (elementsOf c)) (filter (isNode m) (bodyChildren s)))
      in s\<lparr>bodyChildren := filter (\<lambda>c. \<not> isNode m c) (bodyChildren s),
            activeElement := (case activeElement s of
                                None \<Rightarrow> None
                              | Some a \<Rightarrow> if a \<in> set gone then None else Some a)\<rparr>)"

fun runListener :: "nat \<Rightarrow> listener \<Rightarrow> app \<Rightarrow> app" where
  "runListener target (CloseClick m) s = removeNode m s"
| "runListener target (BackdropClick m) s = (if target = m then removeNode m s else s)"

text \<open>
  \<^verbatim>\<open>handleSmoothScroll\<close>, lines 306 to 314, for a click whose target is the element \<open>e\<close>;
  the boolean tells whether \<^verbatim>\<open>event.preventDefault()\<close> was called.
\<close>

definition handleSmoothScroll :: "element \<Rightarrow> app \<Rightarrow> bool \<times> app" where
  "handleSmoothScroll e s =
     (if tagName e = ''A'' \<and>
         (case getAttribute ''href'' e of None \<Rightarrow> False | Some h \<Rightarrow> take 1 h = ''#'')
      then (let targetId = drop 1 (case getAttribute ''href'' e of None \<Rightarrow> [] | Some h \<Rightarrow> h)
            in (True, scrollToSection targetId s))
      else (False, s))"

text \<open>
  A click whose target is the script-built element \<open>target\<close>. The path is fixed before any
  listener runs: from the target up to the root of its tree, then the document. On each
  element of the path the listeners registered on it run in registration order; the
  document has the one click listener of line 110. No listener of the script stops the
  propagation. The body, the root element and the window have no click listener.
\<close>

definition dispatchClick :: "nat \<Rightarrow> app \<Rightarrow> app" where
  "dispatchClick target s =
     (case find (\<lambda>c. pathTo target c \<noteq> []) (bodyChildren s) of
        None \<Rightarrow> s
      | Some root \<Rightarrow>
          (let path = pathTo target root;
               ls = concat (map (\<lambda>i. map snd (filter (\<lambda>(j, l). j = i) (clickListeners s))) path);
               s1 = fold (runListener target) ls s
           in case map_of (elementsOf root) target of
                None \<Rightarrow> s1
              | Some e \<Rightarrow> snd (handleSmoothScroll e s1)))"

text \<open>
  A keydown event: the one listener registered for \<^verbatim>\<open>keydown\<close> is that of line 157, on the
  document; the modal has none.
\<close>

definition dispatchKeydown :: "string \<Rightarrow> app \<Rightarrow> app" where
  "dispatchKeydown key s = handleKeyboardNavigation key s"

definition isEmergencyModal :: "node \<Rightarrow> bool" where
  "isEmergencyModal c =
     (case c of Element i e kids \<Rightarrow> ''emergency-modal'' \<in> set (classList e) | Text t \<Rightarrow> False)"

definition emergencyModals :: "app \<Rightarrow> node list" where
  "emergencyModals s = filter isEmergencyModal (bodyChildren s)"

definition inDocument :: "nat \<Rightarrow> app \<Rightarrow> bool" where
  "inDocument m s = (filter (isNode m) (bodyChildren s) \<noteq> [])"

text \<open>The \<^verbatim>\<open>href\<close> values of the links of a tree, in document order.\<close>

definition actionReferences :: "node \<Rightarrow> string list" where
  "actionReferences n =
     concat (map (\<lambda>(i, e). if tagName e = ''A''
                            then (case getAttribute ''href'' e of None \<Rightarrow> [] | Some h \<Rightarrow> [h])
                            else [])
                 (elementsOf n))"

text \<open>\<^verbatim>\<open>textContent\<close>: the text of a node and of all its descendants, in document order.\<close>

fun textContent :: "node \<Rightarrow> string" where
  "textContent (Text t) = t"
| "textContent (Element i e kids) = concat (map textContent kids)"

text \<open>\<^verbatim>\<open>String.prototype.includes\<close>.\<close>

fun string_includes :: "string \<Rightarrow> string \<Rightarrow> bool" where
  "string_includes [] needle = (needle = [])"
| "string_includes (c # cs) needle =
     (take (length needle) (c # cs) = needle \<or> string_includes cs needle)"

text \<open>
  Every place of a tree where a word can stand: the text nodes, in document order, and
  the attribute values and class tokens of the elements.
\<close>

fun textsOf :: "node \<Rightarrow> string list" where
  "textsOf (Text t) = [t]"
| "textsOf (Element i e kids) = concat (map textsOf kids)"

definition attributeValues :: "node \<Rightarrow> string list" where
  "attributeValues n =
     concat (map (\<lambda>(i, e). map snd (attributes e) @ classList e) (elementsOf n))"

text \<open>The close control of a modal: what \<^verbatim>\<open>querySelector('.close-modal')\<close> finds in it.\<close>

definition closeControl :: "node \<Rightarrow> nat option" where
  "closeControl modal = map_option fst (querySelector_class ''close-modal'' modal)"

text \<open>
  The content region of a modal is its \<^verbatim>\<open>.emergency-modal-content\<close> element with everything
  below it: an element lies inside when the region's root is on its path to the modal.
\<close>

definition insideContent :: "nat \<Rightarrow> node \<Rightarrow> bool" where
  "insideContent t modal =
     (case querySelector_class ''emergency-modal-content'' modal of
        None \<Rightarrow> False
      | Some (c, e) \<Rightarrow> c \<in> set (pathTo t modal))"

text \<open>
  The descriptive line of each resource entry: the text of the \<^verbatim>\<open>p\<close> elements, in document
  order.
\<close>

fun nodesOf :: "node \<Rightarrow> node list" where
  "nodesOf (Text t) = []"
| "nodesOf (Element i e kids) = Element i e kids # concat (map nodesOf kids)"

definition hasTag :: "string \<Rightarrow> node \<Rightarrow> bool" where
  "hasTag t c = (case c of Element i e kids \<Rightarrow> tagName e = t | Text x \<Rightarrow> False)"

definition descriptiveLines :: "node \<Rightarrow> string list" where
  "descriptiveLines modal = map textContent (filter (hasTag ''P'') (nodesOf modal))"

section \<open>Observations and a page to evaluate on\<close>

text \<open>The error a handler has thrown, if it has.\<close>

definition thrown :: "(error \<times> app) + (bool \<times> app) \<Rightarrow> error option" where
  "thrown r = (case r of Inl (e, s) \<Rightarrow> Some e | Inr x \<Rightarrow> None)"

text \<open>
  The closed presentation of the mobile navigation: the boolean is false and neither the
  toggle control nor the menu panel carries the class \<^verbatim>\<open>active\<close>.
\<close>

definition navClosed :: "app \<Rightarrow> bool" where
  "navClosed s =
     (\<not> navigationActive s \<and>
      (case navToggle s of None \<Rightarrow> True | Some r \<Rightarrow> \<not> hasClass s r ''active'') \<and>
      (case navMenu s of None \<Rightarrow> True | Some r \<Rightarrow> \<not> hasClass s r ''active''))"

text \<open>
  The ARIA attributes say "closed": \<^verbatim>\<open>aria-expanded="false"\<close> on the toggle control and
  \<^verbatim>\<open>aria-hidden="true"\<close> on the menu panel, for each of the two that exists.
\<close>

definition ariaMirrorsClosed :: "app \<Rightarrow> bool" where
  "ariaMirrorsClosed s =
     ((case navToggle s of
         None \<Rightarrow> True
       | Some r \<Rightarrow> (case heap s r of
                      None \<Rightarrow> True
                    | Some e \<Rightarrow> getAttribute ''aria-expanded'' e = Some ''false'')) \<and>
      (case navMenu s of
         None \<Rightarrow> True
       | Some r \<Rightarrow> (case heap s r of
                      None \<Rightarrow> True
                    | Some e \<Rightarrow> getAttribute ''aria-hidden'' e = Some ''true'')))"

text \<open>
  A page as it is right after loading (its elements at the addresses 10 to 14), wide viewport, no fragment in the URL: a toggle
  button and a menu that carry no ARIA attribute yet, and three navigation links, the
  last of which has no \<^verbatim>\<open>href\<close>. The section \<^verbatim>\<open>features\<close> exists; the header is 64 pixels
  high.
\<close>

definition examplePage :: app where
  "examplePage =
     \<lparr>navigationActive = False, currentPage = ''home'',
      navToggle = Some 10, navMenu = Some 11, navLinks = [12, 13, 14],
      heap = [10 \<mapsto> \<lparr>tagName = ''BUTTON'', classList = [''nav-toggle''], attributes = []\<rparr>,
              11 \<mapsto> \<lparr>tagName = ''UL'', classList = [''nav-menu''], attributes = []\<rparr>,
              12 \<mapsto> \<lparr>tagName = ''A'', classList = [''nav-link'', ''active''],
                     attributes = [(''href'', ''#home'')]\<rparr>,
              13 \<mapsto> \<lparr>tagName = ''A'', classList = [''nav-link''],
                     attributes = [(''href'', ''#features'')]\<rparr>,
              14 \<mapsto> \<lparr>tagName = ''A'', classList = [''nav-link''], attributes = []\<rparr>],
      innerWidth = 1200, location_hash = [],
      sectionOffsetTop = (\<lambda>i. if i = ''features'' then Some 600 else None),
      headerOffsetHeight = Some 64, scrollRequest = None,
      bodyClassList = [], bodyChildren = [], clickListeners = [],
      nextId = 0, activeElement = None, console = []\<rparr>"

text \<open>Applying a function under a condition; used to state what one call does to one element.\<close>

definition applyIf :: "bool \<Rightarrow> ('a \<Rightarrow> 'a) \<Rightarrow> 'a \<Rightarrow> 'a" where
  "applyIf b f x = (if b then f x else x)"

section \<open>Events\<close>

text \<open>
  What happens to a page between loading and the moment a property is observed: a list
  of events, each run to completion before the next one starts. \<open>EmergencyActivation\<close> is
  a call of \<^verbatim>\<open>showEmergencyResources\<close>, \<open>NavToggle\<close> a call of \<^verbatim>\<open>toggleMobileNav\<close> (both are
  exported, and both are what a click on their control runs); \<open>Click t\<close> is a click on the
  script-built element \<open>t\<close>.
\<close>

datatype event = EmergencyActivation | Click nat | Keydown string | Resize int | NavToggle

fun step :: "event \<Rightarrow> app \<Rightarrow> app" where
  "step EmergencyActivation s = showEmergencyResources s"
| "step (Click t) s = dispatchClick t s"
| "step (Keydown key) s = dispatchKeydown key s"
| "step (Resize w) s = dispatchResize w s"
| "step NavToggle s = toggleMobileNav s"

definition run :: "event list \<Rightarrow> app \<Rightarrow> app" where
  "run evs s = fold step evs s"

text \<open>
  The invariant behind the properties of the modal: the registered listeners are those
  of the modals created so far, each modal took twenty fresh identities, and every node
  the script has put into the body is one of these modals.
\<close>

definition separated :: "nat list \<Rightarrow> bool" where
  "separated ks = (\<forall>k \<in> set ks. \<forall>k' \<in> set ks. k = k' \<or> k + 20 \<le> k' \<or> k' + 20 \<le> k)"

definition listenersOf :: "nat list \<Rightarrow> (nat \<times> listener) list" where
  "listenersOf ks = concat (map (\<lambda>k. [(k + 19, CloseClick k), (k, BackdropClick k)]) ks)"

definition modalInv :: "app \<Rightarrow> bool" where
  "modalInv s =
     (\<exists>ks. clickListeners s = listenersOf ks \<and> separated ks \<and>
           (\<forall>k \<in> set ks. k + 20 \<le> nextId s) \<and>
           (\<forall>c \<in> set (bodyChildren s). \<exists>k \<in> set ks. c = emergencyModalTree k))"

section \<open>The debounce utility\<close>





















section \<open>Frame lemmas: what a write through a reference leaves alone\<close>

lemma modify_fields [simp]:
  "navigationActive (modify r f s) = navigationActive s"
  "currentPage (modify r f s) = currentPage s"
  "navToggle (modify r f s) = navToggle s"
  "navMenu (modify r f s) = navMenu s"
  "navLinks (modify r f s) = navLinks s"
  "innerWidth (modify r f s) = innerWidth s"
  "location_hash (modify r f s) = location_hash s"
  "sectionOffsetTop (modify r f s) = sectionOffsetTop s"
  "headerOffsetHeight (modify r f s) = headerOffsetHeight s"
  "scrollRequest (modify r f s) = scrollRequest s"
  "bodyClassList (modify r f s) = bodyClassList s"
  "bodyChildren (modify r f s) = bodyChildren s"
  "clickListeners (modify r f s) = clickListeners s"
  "nextId (modify r f s) = nextId s"
  "activeElement (modify r f s) = activeElement s"
  "console (modify r f s) = console s"
  "app.more (modify r f s) = app.more s"
  by (simp_all add: modify_def split: option.splits)

lemma guarded_fields [simp]:
  "navigationActive (guarded ref f s) = navigationActive s"
  "currentPage (guarded ref f s) = currentPage s"
  "navToggle (guarded ref f s) = navToggle s"
  "navMenu (guarded ref f s) = navMenu s"
  "navLinks (guarded ref f s) = navLinks s"
  "innerWidth (guarded ref f s) = innerWidth s"
  "location_hash (guarded ref f s) = location_hash s"
  "sectionOffsetTop (guarded ref f s) = sectionOffsetTop s"
  "headerOffsetHeight (guarded ref f s) = headerOffsetHeight s"
  "scrollRequest (guarded ref f s) = scrollRequest s"
  "bodyClassList (guarded ref f s) = bodyClassList s"
  "bodyChildren (guarded ref f s) = bodyChildren s"
  "clickListeners (guarded ref f s) = clickListeners s"
  "nextId (guarded ref f s) = nextId s"
  "activeElement (guarded ref f s) = activeElement s"
  "console (guarded ref f s) = console s"
  "app.more (guarded ref f s) = app.more s"
  by (simp_all add: guarded_def split: option.splits)

lemma heap_modify [simp]:
  "heap (modify r f s) x = (if x = r then map_option f (heap s x) else heap s x)"
  by (simp add: modify_def split: option.splits)

lemma heap_guarded [simp]:
  "heap (guarded ref f s) x = (if ref = Some x then map_option f (heap s x) else heap s x)"
  by (cases ref) (simp_all add: guarded_def)

lemma toggleMobileNav_fields [simp]:
  "navigationActive (toggleMobileNav s) = (\<not> navigationActive s)"
  "currentPage (toggleMobileNav s) = currentPage s"
  "navToggle (toggleMobileNav s) = navToggle s"
  "navMenu (toggleMobileNav s) = navMenu s"
  "navLinks (toggleMobileNav s) = navLinks s"
  "innerWidth (toggleMobileNav s) = innerWidth s"
  "location_hash (toggleMobileNav s) = location_hash s"
  "sectionOffsetTop (toggleMobileNav s) = sectionOffsetTop s"
  "headerOffsetHeight (toggleMobileNav s) = headerOffsetHeight s"
  "scrollRequest (toggleMobileNav s) = scrollRequest s"
  "bodyClassList (toggleMobileNav s) = bodyClassList s"
  "bodyChildren (toggleMobileNav s) = bodyChildren s"
  "clickListeners (toggleMobileNav s) = clickListeners s"
  "nextId (toggleMobileNav s) = nextId s"
  "activeElement (toggleMobileNav s) = activeElement s"
  "console (toggleMobileNav s) = console s"
  "app.more (toggleMobileNav s) = app.more s"
  by (simp_all add: toggleMobileNav_def Let_def)

lemma heap_toggleMobileNav:
  "heap (toggleMobileNav s) x =
     map_option
       (\<lambda>e. applyIf (navMenu s = Some x)
               (setAttribute ''aria-hidden'' (bool_toString (navigationActive s)))
             (applyIf (navToggle s = Some x)
               (setAttribute ''aria-expanded'' (bool_toString (\<not> navigationActive s)))
             (applyIf (navToggle s = Some x) (classList_toggle ''active'')
             (applyIf (navMenu s = Some x) (classList_toggle ''active'') e))))
       (heap s x)"
  by (cases "heap s x") (simp_all add: toggleMobileNav_def Let_def applyIf_def)

lemma getAttribute_setAttribute:
  "getAttribute k (setAttribute k' v e) = (if k = k' then Some v else getAttribute k e)"
  by (simp add: getAttribute_def setAttribute_def update_conv')

lemma setAttribute_fix: "(setAttribute k v e = e) = (getAttribute k e = Some v)"
proof
  assume "setAttribute k v e = e"
  then have "getAttribute k (setAttribute k v e) = getAttribute k e" by simp
  then show "getAttribute k e = Some v" by (simp add: getAttribute_setAttribute)
next
  assume "getAttribute k e = Some v"
  then show "setAttribute k v e = e"
    by (simp add: getAttribute_def setAttribute_def AList.update_triv)
qed

lemma setAttribute_triv: "getAttribute k e = Some v \<Longrightarrow> setAttribute k v e = e"
  by (simp add: setAttribute_fix)

lemma update_absorb:
  "k \<noteq> k' \<Longrightarrow>
   AList.update k v (AList.update k' v' (AList.update k v0 al)) =
   AList.update k' v' (AList.update k v al)"
  by (induct al) auto

section \<open>Properties of the navigation controller\<close>

text \<open>
  C5. After a resize event that leaves the viewport wider than 768 pixels, the open-state
  boolean is false, whatever the navigation state was before.
\<close>

theorem resize_above_breakpoint_closes:
  "768 < w \<Longrightarrow> \<not> navigationActive (dispatchResize w s)"
  by (simp add: dispatchResize_def handleWindowResize_def updateMobileNavigation_def Let_def)

theorem resize_above_breakpoint_closes_witness:
  "(768::int) < 1200 \<and> navigationActive (toggleMobileNav examplePage) \<and>
   \<not> navigationActive (dispatchResize 1200 (toggleMobileNav examplePage))"
  using resize_above_breakpoint_closes [of 1200 "toggleMobileNav examplePage"]
  by (simp add: examplePage_def)

lemma classList_toggle_twice:
  assumes "''active'' \<notin> set (classList e)"
  shows "applyIf m (setAttribute ''aria-hidden'' ''true'')
          (applyIf t (setAttribute ''aria-expanded'' ''false'')
          (applyIf t (classList_toggle ''active'')
          (applyIf m (classList_toggle ''active'')
          (applyIf m (setAttribute ''aria-hidden'' ''false'')
          (applyIf t (setAttribute ''aria-expanded'' ''true'')
          (applyIf t (classList_toggle ''active'')
          (applyIf m (classList_toggle ''active'') e)))))))
        = applyIf m (setAttribute ''aria-hidden'' ''true'')
            (applyIf t (setAttribute ''aria-expanded'' ''false'') e)"
  using assms
  by (cases m; cases t)
     (simp_all add: applyIf_def setAttribute_def classList_toggle_def classList_remove_def
        update_absorb)

lemma toggle_twice_result:
  assumes "navClosed s"
  shows "toggleMobileNav (toggleMobileNav s) =
     guarded (navMenu s) (setAttribute ''aria-hidden'' ''true'')
       (guarded (navToggle s) (setAttribute ''aria-expanded'' ''false'') s)"
    (is "?l = ?r")
proof (rule app.equality)
  show "heap ?l = heap ?r"
  proof (rule ext)
    fix x
    show "heap ?l x = heap ?r x"
    proof (cases "heap s x")
      case None
      then show ?thesis by (simp add: heap_toggleMobileNav)
    next
      case (Some e)
      have na: "\<not> navigationActive s" using assms by (simp add: navClosed_def)
      have cl: "''active'' \<notin> set (classList e)"
        if "navToggle s = Some x \<or> navMenu s = Some x"
        using assms Some that by (auto simp: navClosed_def hasClass_def classList_contains_def)
      show ?thesis
      proof (cases "navToggle s = Some x \<or> navMenu s = Some x")
        case True
        from classList_toggle_twice [OF cl [OF True], of "navMenu s = Some x" "navToggle s = Some x"]
        show ?thesis using Some na
          by (simp add: heap_toggleMobileNav bool_toString_def applyIf_def)
      next
        case False
        then show ?thesis using Some by (simp add: heap_toggleMobileNav applyIf_def)
      qed
    qed
  qed
qed simp_all

lemma aria_write_fixpoint:
  "(guarded (navMenu s) (setAttribute ''aria-hidden'' ''true'')
       (guarded (navToggle s) (setAttribute ''aria-expanded'' ''false'') s) = s)
   = ariaMirrorsClosed s"
  (is "(?g = s) = _")
proof
  assume eq: "?g = s"
  have pt: "heap ?g x = heap s x" for x using eq by simp
  have expanded: "getAttribute ''aria-expanded'' e = Some ''false''"
    if "navToggle s = Some r" "heap s r = Some e" for r e
    using pt [of r] that
    by (cases "navMenu s = Some r")
       (auto simp: setAttribute_fix getAttribute_setAttribute
             dest: arg_cong [where f = "getAttribute ''aria-expanded''"])
  have hidden: "getAttribute ''aria-hidden'' e = Some ''true''"
    if "navMenu s = Some r" "heap s r = Some e" for r e
    using pt [of r] that
    by (cases "navToggle s = Some r")
       (auto simp: setAttribute_fix getAttribute_setAttribute
             dest: arg_cong [where f = "getAttribute ''aria-hidden''"])
  show "ariaMirrorsClosed s"
    using expanded hidden by (simp add: ariaMirrorsClosed_def split: option.splits)
next
  assume m: "ariaMirrorsClosed s"
  show "?g = s"
  proof (rule app.equality)
    show "heap ?g = heap s"
    proof (rule ext)
      fix x
      show "heap ?g x = heap s x"
        using m
        by (cases "heap s x") (auto simp: ariaMirrorsClosed_def setAttribute_triv)
    qed
  qed simp_all
qed

text \<open>
  C6, as the code has it. From a closed state, two calls of \<^verbatim>\<open>toggleMobileNav\<close> give back the
  boolean and the class lists and leave \<^verbatim>\<open>aria-expanded="false"\<close> on the toggle control and
  \<^verbatim>\<open>aria-hidden="true"\<close> on the menu panel. So the two calls are the identity exactly when
  the two attributes had these values before.
\<close>

theorem toggleMobileNav_twice_from_closed:
  assumes "navClosed s"
  shows "toggleMobileNav (toggleMobileNav s) =
           guarded (navMenu s) (setAttribute ''aria-hidden'' ''true'')
             (guarded (navToggle s) (setAttribute ''aria-expanded'' ''false'') s) \<and>
         (toggleMobileNav (toggleMobileNav s) = s) = ariaMirrorsClosed s"
  using toggle_twice_result [OF assms] aria_write_fixpoint [of s] by simp

lemma examplePage_heap:
  "heap examplePage 10 = Some \<lparr>tagName = ''BUTTON'', classList = [''nav-toggle''], attributes = []\<rparr>"
  "heap examplePage 11 = Some \<lparr>tagName = ''UL'', classList = [''nav-menu''], attributes = []\<rparr>"
  "heap examplePage 12 = Some \<lparr>tagName = ''A'', classList = [''nav-link'', ''active''],
                               attributes = [(''href'', ''#home'')]\<rparr>"
  "heap examplePage 13 = Some \<lparr>tagName = ''A'', classList = [''nav-link''],
                               attributes = [(''href'', ''#features'')]\<rparr>"
  "heap examplePage 14 = Some \<lparr>tagName = ''A'', classList = [''nav-link''], attributes = []\<rparr>"
  by (simp_all add: examplePage_def)

lemma examplePage_refs:
  "navToggle examplePage = Some 10" "navMenu examplePage = Some 11"
  "navLinks examplePage = [12, 13, 14]" "\<not> navigationActive examplePage"
  "innerWidth examplePage = 1200" "location_hash examplePage = []"
  "bodyChildren examplePage = []" "clickListeners examplePage = []" "nextId examplePage = 0"
  by (simp_all add: examplePage_def)

theorem toggleMobileNav_twice_from_closed_witness:
  "navClosed (toggleMobileNav (toggleMobileNav examplePage)) \<and>
   ariaMirrorsClosed (toggleMobileNav (toggleMobileNav examplePage)) \<and>
   toggleMobileNav (toggleMobileNav (toggleMobileNav (toggleMobileNav examplePage))) =
     toggleMobileNav (toggleMobileNav examplePage)"
proof -
  have c: "navClosed (toggleMobileNav (toggleMobileNav examplePage))"
    by (simp add: navClosed_def hasClass_def heap_toggleMobileNav examplePage_heap
          examplePage_refs applyIf_def classList_toggle_def classList_remove_def
          classList_contains_def setAttribute_def bool_toString_def)
  have a: "ariaMirrorsClosed (toggleMobileNav (toggleMobileNav examplePage))"
    by (simp add: ariaMirrorsClosed_def heap_toggleMobileNav examplePage_heap
          examplePage_refs applyIf_def classList_toggle_def classList_remove_def
          getAttribute_def setAttribute_def bool_toString_def)
  from toggleMobileNav_twice_from_closed [OF c] a c show ?thesis by blast
qed

text \<open>
  The claim as the specification states it fails on a page whose toggle control has no
  \<^verbatim>\<open>aria-expanded\<close> attribute yet: the state is closed, and after two calls the attribute
  is there.
\<close>

theorem toggleMobileNav_twice_counterexample:
  "navClosed examplePage \<and>
   attributeOf examplePage 10 ''aria-expanded'' = None \<and>
   attributeOf (toggleMobileNav (toggleMobileNav examplePage)) 10 ''aria-expanded'' = Some ''false'' \<and>
   toggleMobileNav (toggleMobileNav examplePage) \<noteq> examplePage"
proof -
  have c: "navClosed examplePage"
    by (simp add: navClosed_def hasClass_def examplePage_heap examplePage_refs
          classList_contains_def)
  have b: "attributeOf examplePage 10 ''aria-expanded'' = None"
    by (simp add: attributeOf_def examplePage_heap getAttribute_def)
  have a: "attributeOf (toggleMobileNav (toggleMobileNav examplePage)) 10 ''aria-expanded'' =
             Some ''false''"
    by (simp add: attributeOf_def heap_toggleMobileNav examplePage_heap examplePage_refs
          applyIf_def classList_toggle_def classList_remove_def getAttribute_def
          setAttribute_def bool_toString_def)
  from a b have "toggleMobileNav (toggleMobileNav examplePage) \<noteq> examplePage" by auto
  with a b c show ?thesis by simp
qed

lemma fold_modify_fields [simp]:
  "navLinks (fold (\<lambda>r. modify r f) rs s) = navLinks s"
  "location_hash (fold (\<lambda>r. modify r f) rs s) = location_hash s"
  "navigationActive (fold (\<lambda>r. modify r f) rs s) = navigationActive s"
  by (induction rs arbitrary: s) simp_all

lemma heap_fold_modify:
  assumes idem: "\<And>e. f (f e) = f e"
  shows "heap (fold (\<lambda>r. modify r f) rs s) x =
           (if x \<in> set rs then map_option f (heap s x) else heap s x)"
proof (induction rs arbitrary: s)
  case Nil
  show ?case by simp
next
  case (Cons r rs)
  show ?case
    by (cases "heap s x") (auto simp: Cons.IH idem)
qed

lemma markLink_idem: "markLink h (markLink h e) = markLink h e"
  by (simp add: markLink_def classList_add_def classList_remove_def getAttribute_def)

lemma markLink_active:
  "classList_contains ''active'' (markLink h e) = (getAttribute ''href'' e = Some (''#'' @ h))"
  by (simp add: markLink_def classList_add_def classList_remove_def classList_contains_def)

lemma fold_modify_hash:
  "fold (\<lambda>r. modify r f) rs (s\<lparr>location_hash := h\<rparr>) =
   (fold (\<lambda>r. modify r f) rs s)\<lparr>location_hash := h\<rparr>"
proof (induction rs arbitrary: s)
  case Nil
  show ?case by simp
next
  case (Cons r rs)
  have "modify r f (s\<lparr>location_hash := h\<rparr>) = (modify r f s)\<lparr>location_hash := h\<rparr>"
    by (simp add: modify_def split: option.splits)
  then show ?case by (simp add: Cons.IH)
qed

lemma updateActiveNavigation_marks:
  assumes "r \<in> set (navLinks s)"
  shows "hasClass (updateActiveNavigation s) r ''active'' =
           (attributeOf s r ''href'' = Some (''#'' @ currentHash s))"
proof -
  have "heap (updateActiveNavigation s) r = map_option (markLink (currentHash s)) (heap s r)"
    using assms by (simp add: updateActiveNavigation_def heap_fold_modify [OF markLink_idem])
  then show ?thesis
    by (cases "heap s r") (simp_all add: hasClass_def attributeOf_def markLink_active)
qed

text \<open>
  C8. \<^verbatim>\<open>updateActiveNavigation\<close> reads the fragment of the URL. With a fragment \<^verbatim>\<open>#f\<close>, so
  with \<^verbatim>\<open>#features\<close>, it leaves the class \<^verbatim>\<open>active\<close> on a navigation link exactly when the
  link's \<^verbatim>\<open>href\<close> is the string \<^verbatim>\<open>#f\<close>; a link with another \<^verbatim>\<open>href\<close>, or with none, ends
  without the class. With no fragment the links marked are those whose \<^verbatim>\<open>href\<close> is \<^verbatim>\<open>#home\<close>,
  and the whole state is what the fragment \<^verbatim>\<open>#home\<close> gives. An element that is not a
  navigation link is left as it is.
\<close>

theorem updateActiveNavigation_exact_match:
  "(\<forall>f. f \<noteq> [] \<and> location_hash s = ''#'' @ f \<longrightarrow>
      (\<forall>r \<in> set (navLinks s).
         hasClass (updateActiveNavigation s) r ''active'' =
           (attributeOf s r ''href'' = Some (''#'' @ f)))) \<and>
   (location_hash s = ''#features'' \<longrightarrow>
      (\<forall>r \<in> set (navLinks s).
         hasClass (updateActiveNavigation s) r ''active'' =
           (attributeOf s r ''href'' = Some ''#features''))) \<and>
   (location_hash s = [] \<longrightarrow>
      (\<forall>r \<in> set (navLinks s).
         hasClass (updateActiveNavigation s) r ''active'' =
           (attributeOf s r ''href'' = Some ''#home''))) \<and>
   (\<forall>r. r \<notin> set (navLinks s) \<longrightarrow> heap (updateActiveNavigation s) r = heap s r) \<and>
   updateActiveNavigation (s\<lparr>location_hash := []\<rparr>) =
     (updateActiveNavigation (s\<lparr>location_hash := ''#home''\<rparr>))\<lparr>location_hash := []\<rparr>"
proof (intro conjI allI impI ballI)
  fix f r
  assume h: "f \<noteq> [] \<and> location_hash s = ''#'' @ f" and r: "r \<in> set (navLinks s)"
  from h have "currentHash s = f" by (simp add: currentHash_def)
  with updateActiveNavigation_marks [OF r]
  show "hasClass (updateActiveNavigation s) r ''active'' =
           (attributeOf s r ''href'' = Some (''#'' @ f))"
    by simp
next
  fix r
  assume h: "location_hash s = ''#features''" and r: "r \<in> set (navLinks s)"
  from h have "currentHash s = ''features''" by (simp add: currentHash_def)
  with updateActiveNavigation_marks [OF r]
  show "hasClass (updateActiveNavigation s) r ''active'' =
           (attributeOf s r ''href'' = Some ''#features'')"
    by simp
next
  fix r
  assume h: "location_hash s = []" and r: "r \<in> set (navLinks s)"
  from h have "currentHash s = ''home''" by (simp add: currentHash_def)
  with updateActiveNavigation_marks [OF r]
  show "hasClass (updateActiveNavigation s) r ''active'' =
           (attributeOf s r ''href'' = Some ''#home'')"
    by simp
next
  fix r
  assume "r \<notin> set (navLinks s)"
  then show "heap (updateActiveNavigation s) r = heap s r"
    by (simp add: updateActiveNavigation_def heap_fold_modify [OF markLink_idem])
next
  show "updateActiveNavigation (s\<lparr>location_hash := []\<rparr>) =
     (updateActiveNavigation (s\<lparr>location_hash := ''#home''\<rparr>))\<lparr>location_hash := []\<rparr>"
    by (simp add: updateActiveNavigation_def currentHash_def fold_modify_hash)
qed

theorem updateActiveNavigation_exact_match_witness:
  "location_hash (examplePage\<lparr>location_hash := ''#features''\<rparr>) = ''#features'' \<and>
   navLinks (examplePage\<lparr>location_hash := ''#features''\<rparr>) = [12, 13, 14] \<and>
   \<not> hasClass (updateActiveNavigation (examplePage\<lparr>location_hash := ''#features''\<rparr>)) 12 ''active'' \<and>
   hasClass (updateActiveNavigation (examplePage\<lparr>location_hash := ''#features''\<rparr>)) 13 ''active'' \<and>
   \<not> hasClass (updateActiveNavigation (examplePage\<lparr>location_hash := ''#features''\<rparr>)) 14 ''active'' \<and>
   location_hash examplePage = [] \<and>
   hasClass (updateActiveNavigation examplePage) 12 ''active'' \<and>
   \<not> hasClass (updateActiveNavigation examplePage) 13 ''active'' \<and>
   \<not> hasClass (updateActiveNavigation examplePage) 14 ''active'' \<and>
   heap (updateActiveNavigation examplePage) 10 = heap examplePage 10"
  using updateActiveNavigation_exact_match [of "examplePage\<lparr>location_hash := ''#features''\<rparr>"]
    updateActiveNavigation_exact_match [of examplePage]
  by (simp add: examplePage_refs examplePage_heap attributeOf_def getAttribute_def)









text \<open>
  C4. A handler that does not tolerate a missing attribute: \<^verbatim>\<open>handleNavigation\<close> on a link
  that has no \<^verbatim>\<open>href\<close> throws a \<^verbatim>\<open>TypeError\<close>, for every state.
\<close>

theorem handleNavigation_throws_without_href:
  "attributeOf s link ''href'' = None \<Longrightarrow>
   thrown (handleNavigation link s) =
     Some (TypeError ''Cannot read properties of null (reading startsWith)'')"
  by (simp add: handleNavigation_def thrown_def Let_def)

theorem handleNavigation_throws_without_href_witness:
  "attributeOf examplePage 14 ''href'' = None \<and>
   thrown (handleNavigation 14 examplePage) =
     Some (TypeError ''Cannot read properties of null (reading startsWith)'')"
  using handleNavigation_throws_without_href [of examplePage 14]
  by (simp add: attributeOf_def examplePage_heap getAttribute_def)

section \<open>Properties of the crisis modal\<close>

lemma querySelector_close_modal:
  "querySelector_class ''close-modal'' (emergencyModalTree n) =
     Some (n + 19, \<lparr>tagName = ''BUTTON'',
                    classList = [''btn'', ''btn-secondary'', ''close-modal''],
                    attributes = []\<rparr>)"
  by (simp add: querySelector_class_def emergencyModalTree_def)

lemma querySelector_button:
  "querySelector_tag ''BUTTON'' (emergencyModalTree n) =
     Some (n + 19, \<lparr>tagName = ''BUTTON'',
                    classList = [''btn'', ''btn-secondary'', ''close-modal''],
                    attributes = []\<rparr>)"
  by (simp add: querySelector_tag_def emergencyModalTree_def)

lemma querySelector_content:
  "querySelector_class ''emergency-modal-content'' (emergencyModalTree n) =
     Some (n + 1, \<lparr>tagName = ''DIV'', classList = [''emergency-modal-content''],
                   attributes = []\<rparr>)"
  by (simp add: querySelector_class_def emergencyModalTree_def)

lemma closeControl_tree: "closeControl (emergencyModalTree n) = Some (n + 19)"
  by (simp add: closeControl_def querySelector_close_modal)

lemma createEmergencyModal_result:
  "createEmergencyModal s =
     (emergencyModalTree (nextId s),
      s\<lparr>nextId := nextId s + 20,
        clickListeners := clickListeners s @
          [(nextId s + 19, CloseClick (nextId s)), (nextId s, BackdropClick (nextId s))]\<rparr>)"
  by (simp add: createEmergencyModal_def Let_def querySelector_close_modal)

lemma showEmergencyResources_result:
  "showEmergencyResources s =
     s\<lparr>nextId := nextId s + 20,
       clickListeners := clickListeners s @
         [(nextId s + 19, CloseClick (nextId s)), (nextId s, BackdropClick (nextId s))],
       bodyChildren := bodyChildren s @ [emergencyModalTree (nextId s)],
       activeElement := Some (nextId s + 19)\<rparr>"
  by (simp add: showEmergencyResources_def createEmergencyModal_result Let_def
        querySelector_button)

lemma isEmergencyModal_tree: "isEmergencyModal (emergencyModalTree n)"
  by (simp add: isEmergencyModal_def emergencyModalTree_def)

lemma isNode_tree: "isNode m (emergencyModalTree n) = (n = m)"
  by (simp add: isNode_def emergencyModalTree_def)

lemma emergencyModals_show:
  "emergencyModals (showEmergencyResources s) =
     emergencyModals s @ [emergencyModalTree (nextId s)]"
  by (simp add: emergencyModals_def showEmergencyResources_result isEmergencyModal_tree)

text \<open>
  C1, as the code has it. \<^verbatim>\<open>showEmergencyResources\<close> never looks for a modal that is already
  there: each activation puts one more modal into the document and takes none out, so
  after \<open>k\<close> activations the document holds \<open>k\<close> modals more than before.
\<close>

theorem each_activation_adds_one_modal:
  "length (emergencyModals ((showEmergencyResources ^^ k) s)) = length (emergencyModals s) + k"
  by (induction k) (simp_all add: emergencyModals_show)

text \<open>
  The claim as the specification states it fails at the second activation: the page has
  no modal, and after two activations in a row it has two.
\<close>

theorem second_activation_stacks_counterexample:
  "length (emergencyModals examplePage) = 0 \<and>
   length (emergencyModals (showEmergencyResources examplePage)) = 1 \<and>
   length (emergencyModals (showEmergencyResources (showEmergencyResources examplePage))) = 2"
  by (simp add: emergencyModals_show) (simp add: emergencyModals_def examplePage_refs)

lemma actionReferences_tree:
  "actionReferences (emergencyModalTree n) = [''tel:988'', ''tel:911'', ''sms:741741'']"
  by (simp add: actionReferences_def emergencyModalTree_def getAttribute_def)

lemma descriptiveLines_tree:
  "descriptiveLines (emergencyModalTree n) =
     [''988 Suicide & Crisis Lifeline'', ''911 for immediate emergency'', ''Text HOME to 741741'']"
  by (simp add: descriptiveLines_def emergencyModalTree_def hasTag_def)

lemma textsOf_tree:
  "textsOf (emergencyModalTree n) =
     [[CHR 0xF0, CHR 0x9F, CHR 0x9A, CHR 0xA8] @ '' Emergency Resources'',
      ''Immediate Crisis Support'', ''988 Suicide & Crisis Lifeline'', ''Call 988'',
      ''Emergency Services'', ''911 for immediate emergency'', ''Call 911'',
      ''Crisis Text Line'', ''Text HOME to 741741'', ''Text Support'', ''Close'']"
  by (simp add: emergencyModalTree_def)

lemma attributeValues_tree:
  "attributeValues (emergencyModalTree n) =
     [''emergency-modal'', ''emergency-modal-content'', ''emergency-resources'',
      ''emergency-item'', ''tel:988'', ''btn'', ''btn-emergency'',
      ''emergency-item'', ''tel:911'', ''btn'', ''btn-emergency'',
      ''emergency-item'', ''sms:741741'', ''btn'', ''btn-help'',
      ''btn'', ''btn-secondary'', ''close-modal'']"
  by (simp add: attributeValues_def emergencyModalTree_def)

text \<open>
  C2, as the code has it. The modal holds exactly three links, in this order: \<^verbatim>\<open>tel:988\<close>,
  \<^verbatim>\<open>tel:911\<close> and \<^verbatim>\<open>sms:741741\<close>. The SMS link is the bare number. The word \<^verbatim>\<open>HOME\<close> stands in
  one text node of the modal and in no attribute value or class token, and that text is
  the descriptive line of the third entry.
\<close>

theorem createEmergencyModal_action_references:
  "actionReferences (fst (createEmergencyModal s)) = [''tel:988'', ''tel:911'', ''sms:741741''] \<and>
   descriptiveLines (fst (createEmergencyModal s)) =
     [''988 Suicide & Crisis Lifeline'', ''911 for immediate emergency'', ''Text HOME to 741741''] \<and>
   filter (\<lambda>t. string_includes t ''HOME'') (textsOf (fst (createEmergencyModal s))) =
     [''Text HOME to 741741''] \<and>
   filter (\<lambda>v. string_includes v ''HOME'') (attributeValues (fst (createEmergencyModal s))) = []"
  by (simp add: createEmergencyModal_result actionReferences_tree descriptiveLines_tree
        textsOf_tree attributeValues_tree)

text \<open>
  The claim as the specification states it gives the SMS link the message body \<^verbatim>\<open>HOME\<close>;
  the link of the modal is \<^verbatim>\<open>sms:741741\<close> and nothing more.
\<close>

theorem sms_link_without_body_counterexample:
  "actionReferences (fst (createEmergencyModal examplePage)) ! 2 = ''sms:741741'' \<and>
   \<not> string_includes (actionReferences (fst (createEmergencyModal examplePage)) ! 2) ''HOME'' \<and>
   \<not> string_includes (actionReferences (fst (createEmergencyModal examplePage)) ! 2) ''body''"
  by (simp add: createEmergencyModal_result actionReferences_tree)

lemma pathTo_outside:
  "t < n \<or> n + 19 < t \<Longrightarrow> pathTo t (emergencyModalTree n) = []"
  by (auto simp add: emergencyModalTree_def)

lemma pathTo_inside:
  assumes "d < 20"
  shows "pathTo (n + d) (emergencyModalTree n) \<noteq> [] \<and>
         set (pathTo (n + d) (emergencyModalTree n)) \<subseteq> {n..n + 19} \<and>
         n \<in> set (pathTo (n + d) (emergencyModalTree n)) \<and>
         (n + 19 \<in> set (pathTo (n + d) (emergencyModalTree n))) = (d = 19) \<and>
         (n + 1 \<in> set (pathTo (n + d) (emergencyModalTree n))) = (d \<noteq> 0)"
proof -
  from assms
  have "d \<in> {0, 1, 2, 3, 4, 5, 6, 7, 8, 9, 10, 11, 12, 13, 14, 15, 16, 17, 18, 19}"
    by simp arith
  then show ?thesis
    by (elim insertE emptyE) (simp_all add: emergencyModalTree_def)
qed

lemma pathTo_tree_nonempty:
  "(pathTo t (emergencyModalTree n) \<noteq> []) = (n \<le> t \<and> t \<le> n + 19)"
proof (cases "n \<le> t \<and> t \<le> n + 19")
  case True
  define d where "d = t - n"
  from True have "d < 20" and "t = n + d" unfolding d_def by arith+
  with pathTo_inside [of d n] True show ?thesis by simp
next
  case False
  then have "t < n \<or> n + 19 < t" by auto
  with pathTo_outside [of t n] False show ?thesis by simp
qed

lemma listenersOf_member:
  "((i, l) \<in> set (listenersOf ks)) =
     (\<exists>k \<in> set ks. (i = k + 19 \<and> l = CloseClick k) \<or> (i = k \<and> l = BackdropClick k))"
  by (auto simp: listenersOf_def)

lemma listenersOf_append:
  "listenersOf (ks @ [n]) = listenersOf ks @ [(n + 19, CloseClick n), (n, BackdropClick n)]"
  by (simp add: listenersOf_def)

lemma listeners_on_path:
  "set (concat (map (\<lambda>i. map snd (filter (\<lambda>(j, l). j = i) L)) p)) =
     {l. \<exists>i \<in> set p. (i, l) \<in> set L}"
  by (auto simp: image_iff)

lemma listeners_of_one_modal:
  assumes sep: "separated ks" and k: "k \<in> set ks" and p: "set p \<subseteq> {k..k + 19}"
  shows "{l. \<exists>i \<in> set p. (i, l) \<in> set (listenersOf ks)} =
           (if k + 19 \<in> set p then {CloseClick k} else {}) \<union>
           (if k \<in> set p then {BackdropClick k} else {})"
    (is "?L = ?R")
proof (rule set_eqI)
  fix l
  have near: "k' = k" if "k' \<in> set ks" "k \<le> i" "i \<le> k + 19" "i = k' + 19 \<or> i = k'" for k' i
  proof -
    from sep k that(1) have "k' = k \<or> k' + 20 \<le> k \<or> k + 20 \<le> k'"
      unfolding separated_def by blast
    with that show ?thesis by arith
  qed
  show "(l \<in> ?L) = (l \<in> ?R)"
  proof
    assume "l \<in> ?L"
    then obtain i k' where i: "i \<in> set p" and k': "k' \<in> set ks"
      and l: "(i = k' + 19 \<and> l = CloseClick k') \<or> (i = k' \<and> l = BackdropClick k')"
      by (auto simp: listenersOf_member)
    from i p have r: "k \<le> i" "i \<le> k + 19" by auto
    from near [OF k' r] l have "k' = k" by blast
    with l i show "l \<in> ?R" by auto
  next
    assume "l \<in> ?R"
    then have "(k + 19 \<in> set p \<and> l = CloseClick k) \<or> (k \<in> set p \<and> l = BackdropClick k)"
      by (auto split: if_splits)
    with k show "l \<in> ?L" by (auto simp: listenersOf_member)
  qed
qed

lemma removeNode_fields [simp]:
  "bodyChildren (removeNode m s) = filter (\<lambda>c. \<not> isNode m c) (bodyChildren s)"
  "clickListeners (removeNode m s) = clickListeners s"
  "nextId (removeNode m s) = nextId s"
  by (simp_all add: removeNode_def Let_def)

lemma runListener_keeps [simp]:
  "clickListeners (runListener t l s) = clickListeners s"
  "nextId (runListener t l s) = nextId s"
  by (cases l; simp)+

lemma fold_runListener_keeps [simp]:
  "clickListeners (fold (runListener t) ls s) = clickListeners s"
  "nextId (fold (runListener t) ls s) = nextId s"
  by (induction ls arbitrary: s) simp_all

lemma fold_runListener_subset:
  "set (bodyChildren (fold (runListener t) ls s)) \<subseteq> set (bodyChildren s)"
proof (induction ls arbitrary: s)
  case Nil
  show ?case by simp
next
  case (Cons l ls)
  have "set (bodyChildren (runListener t l s)) \<subseteq> set (bodyChildren s)"
    by (cases l) auto
  with Cons.IH [of "runListener t l s"] show ?case by auto
qed

lemma fold_runListener_body:
  assumes "set ls \<subseteq> {CloseClick k, BackdropClick k}"
  shows "bodyChildren (fold (runListener t) ls s) =
           (if CloseClick k \<in> set ls \<or> (t = k \<and> BackdropClick k \<in> set ls)
            then filter (\<lambda>c. \<not> isNode k c) (bodyChildren s)
            else bodyChildren s)"
  using assms
proof (induction ls arbitrary: s)
  case Nil
  show ?case by simp
next
  case (Cons l ls)
  from Cons.prems have l: "l = CloseClick k \<or> l = BackdropClick k"
    and ls: "set ls \<subseteq> {CloseClick k, BackdropClick k}" by auto
  from l show ?case
    by (auto simp: Cons.IH [OF ls])
qed

lemma scrollToSection_keeps [simp]:
  "bodyChildren (scrollToSection i s) = bodyChildren s"
  "clickListeners (scrollToSection i s) = clickListeners s"
  "nextId (scrollToSection i s) = nextId s"
  by (simp_all add: scrollToSection_def Let_def split: option.splits)

lemma handleSmoothScroll_keeps [simp]:
  "bodyChildren (snd (handleSmoothScroll e s)) = bodyChildren s"
  "clickListeners (snd (handleSmoothScroll e s)) = clickListeners s"
  "nextId (snd (handleSmoothScroll e s)) = nextId s"
  by (simp_all add: handleSmoothScroll_def Let_def)

lemma dispatchClick_cases:
  obtains "dispatchClick t s = s"
  | ls where "dispatchClick t s = fold (runListener t) ls s"
  | ls e where "dispatchClick t s = snd (handleSmoothScroll e (fold (runListener t) ls s))"
proof (cases "find (\<lambda>c. pathTo t c \<noteq> []) (bodyChildren s)")
  case None
  then have "dispatchClick t s = s" by (simp add: dispatchClick_def)
  then show ?thesis by (rule that(1))
next
  case (Some root)
  show ?thesis
  proof (cases "map_of (elementsOf root) t")
    case None
    with Some show ?thesis by (intro that(2)) (simp add: dispatchClick_def Let_def)
  next
    case (Some e)
    with \<open>find (\<lambda>c. pathTo t c \<noteq> []) (bodyChildren s) = Some root\<close>
    show ?thesis by (intro that(3)) (simp add: dispatchClick_def Let_def)
  qed
qed

lemma dispatchClick_keeps [simp]:
  "clickListeners (dispatchClick t s) = clickListeners s"
  "nextId (dispatchClick t s) = nextId s"
  by (rule dispatchClick_cases [of t s]; simp)+

lemma dispatchClick_subset:
  "set (bodyChildren (dispatchClick t s)) \<subseteq> set (bodyChildren s)"
  by (rule dispatchClick_cases [of t s]) (simp_all add: fold_runListener_subset)

lemma find_unique:
  assumes "y \<in> set xs" "P y" "\<And>x. x \<in> set xs \<Longrightarrow> P x \<Longrightarrow> x = y"
  shows "find P xs = Some y"
proof (cases "find P xs")
  case None
  with assms(1,2) show ?thesis by (simp add: find_None_iff)
next
  case (Some z)
  then obtain i where "i < length xs" "P (xs ! i)" "z = xs ! i"
    unfolding find_Some_iff by blast
  then have "z \<in> set xs" "P z" by simp_all
  then have "z = y" by (rule assms(3))
  with Some show ?thesis by simp
qed

lemma dispatchClick_body:
  assumes sep: "separated ks" and L: "clickListeners s = listenersOf ks"
    and body: "\<forall>c \<in> set (bodyChildren s). \<exists>k \<in> set ks. c = emergencyModalTree k"
    and m: "emergencyModalTree m \<in> set (bodyChildren s)"
    and t: "m \<le> t" "t \<le> m + 19"
  shows "bodyChildren (dispatchClick t s) =
           (if t = m + 19 \<or> t = m
            then filter (\<lambda>c. \<not> isNode m c) (bodyChildren s)
            else bodyChildren s)"
proof -
  from body m obtain k where k: "k \<in> set ks" and "emergencyModalTree m = emergencyModalTree k"
    by blast
  moreover have "isNode m (emergencyModalTree m)" by (simp add: isNode_tree)
  ultimately have "isNode m (emergencyModalTree k)" by simp
  then have "k = m" by (simp add: isNode_tree)
  with k have mk: "m \<in> set ks" by simp
  have uniq: "x = emergencyModalTree m"
    if "x \<in> set (bodyChildren s)" "pathTo t x \<noteq> []" for x
  proof -
    from body that(1) obtain k' where k': "k' \<in> set ks" and x: "x = emergencyModalTree k'"
      by blast
    from that(2) x have "k' \<le> t" "t \<le> k' + 19" by (simp_all add: pathTo_tree_nonempty)
    moreover from sep mk k' have "k' = m \<or> k' + 20 \<le> m \<or> m + 20 \<le> k'"
      unfolding separated_def by blast
    ultimately have "k' = m" using t by arith
    with x show ?thesis by simp
  qed
  have root: "find (\<lambda>c. pathTo t c \<noteq> []) (bodyChildren s) = Some (emergencyModalTree m)"
  proof (rule find_unique)
    show "emergencyModalTree m \<in> set (bodyChildren s)" by (rule m)
    show "pathTo t (emergencyModalTree m) \<noteq> []" using t by (simp add: pathTo_tree_nonempty)
    show "x = emergencyModalTree m"
      if "x \<in> set (bodyChildren s)" "pathTo t x \<noteq> []" for x
      using that by (rule uniq)
  qed
  define d where "d = t - m"
  from t have d: "d < 20" and td: "t = m + d" unfolding d_def by arith+
  note P = pathTo_inside [OF d, of m]
  from P have sub: "set (pathTo t (emergencyModalTree m)) \<subseteq> {m..m + 19}"
    unfolding td by blast
  have 19: "(m + 19 \<in> set (pathTo t (emergencyModalTree m))) = (t = m + 19)"
    unfolding td using P by simp
  have 0: "m \<in> set (pathTo t (emergencyModalTree m))" unfolding td using P by blast
  define ls where
    "ls = concat (map (\<lambda>i. map snd (filter (\<lambda>(j, l). j = i) (clickListeners s)))
                      (pathTo t (emergencyModalTree m)))"
  have set_ls: "set ls = (if t = m + 19 then {CloseClick m} else {}) \<union> {BackdropClick m}"
    unfolding ls_def listeners_on_path L listeners_of_one_modal [OF sep mk sub]
    using 19 0 by simp
  then have sub': "set ls \<subseteq> {CloseClick m, BackdropClick m}" by auto
  have "bodyChildren (fold (runListener t) ls s) =
           (if t = m + 19 \<or> t = m
            then filter (\<lambda>c. \<not> isNode m c) (bodyChildren s)
            else bodyChildren s)"
    unfolding fold_runListener_body [OF sub'] set_ls by simp
  moreover have "bodyChildren (dispatchClick t s) = bodyChildren (fold (runListener t) ls s)"
    by (cases "map_of (elementsOf (emergencyModalTree m)) t")
       (simp_all add: dispatchClick_def root Let_def ls_def)
  ultimately show ?thesis by simp
qed

lemma dispatchKeydown_keeps [simp]:
  "bodyChildren (dispatchKeydown key s) = bodyChildren s"
  "clickListeners (dispatchKeydown key s) = clickListeners s"
  "nextId (dispatchKeydown key s) = nextId s"
  by (simp_all add: dispatchKeydown_def handleKeyboardNavigation_def Let_def)

lemma dispatchResize_keeps [simp]:
  "bodyChildren (dispatchResize w s) = bodyChildren s"
  "clickListeners (dispatchResize w s) = clickListeners s"
  "nextId (dispatchResize w s) = nextId s"
  by (simp_all add: dispatchResize_def handleWindowResize_def updateMobileNavigation_def Let_def)

lemma modalInv_initial:
  "bodyChildren s = [] \<Longrightarrow> clickListeners s = [] \<Longrightarrow> modalInv s"
  unfolding modalInv_def by (intro exI [of _ "[]"]) (simp add: listenersOf_def separated_def)

lemma modalInv_shrink:
  assumes "modalInv s" "clickListeners s' = clickListeners s" "nextId s' = nextId s"
    and "set (bodyChildren s') \<subseteq> set (bodyChildren s)"
  shows "modalInv s'"
proof -
  from assms(1) obtain ks where ks: "clickListeners s = listenersOf ks" "separated ks"
      "\<forall>k \<in> set ks. k + 20 \<le> nextId s"
      "\<forall>c \<in> set (bodyChildren s). \<exists>k \<in> set ks. c = emergencyModalTree k"
    unfolding modalInv_def by blast
  with assms(2-4) show ?thesis
    unfolding modalInv_def by (intro exI [of _ ks]) auto
qed

lemma modalInv_show:
  assumes "modalInv s"
  shows "modalInv (showEmergencyResources s)"
proof -
  from assms obtain ks where ks: "clickListeners s = listenersOf ks" "separated ks"
      "\<forall>k \<in> set ks. k + 20 \<le> nextId s"
      "\<forall>c \<in> set (bodyChildren s). \<exists>k \<in> set ks. c = emergencyModalTree k"
    unfolding modalInv_def by blast
  have sep: "separated (ks @ [nextId s])"
    using ks(2,3) unfolding separated_def by auto
  show ?thesis
    unfolding modalInv_def
  proof (intro exI [of _ "ks @ [nextId s]"] conjI)
    show "clickListeners (showEmergencyResources s) = listenersOf (ks @ [nextId s])"
      by (simp add: showEmergencyResources_result listenersOf_append ks(1))
    show "separated (ks @ [nextId s])" by (rule sep)
    show "\<forall>k \<in> set (ks @ [nextId s]). k + 20 \<le> nextId (showEmergencyResources s)"
      using ks(3) by (auto simp: showEmergencyResources_result)
    show "\<forall>c \<in> set (bodyChildren (showEmergencyResources s)).
            \<exists>k \<in> set (ks @ [nextId s]). c = emergencyModalTree k"
      using ks(4) by (auto simp: showEmergencyResources_result)
  qed
qed

lemma modalInv_step: "modalInv s \<Longrightarrow> modalInv (step e s)"
proof (cases e)
  case EmergencyActivation
  assume "modalInv s"
  with EmergencyActivation show ?thesis by (simp add: modalInv_show)
next
  case (Click t)
  assume "modalInv s"
  then have "modalInv (dispatchClick t s)"
    by (rule modalInv_shrink) (simp_all add: dispatchClick_subset)
  with Click show ?thesis by simp
next
  case (Keydown key)
  assume "modalInv s"
  then have "modalInv (dispatchKeydown key s)" by (rule modalInv_shrink) simp_all
  with Keydown show ?thesis by simp
next
  case (Resize w)
  assume "modalInv s"
  then have "modalInv (dispatchResize w s)" by (rule modalInv_shrink) simp_all
  with Resize show ?thesis by simp
next
  case NavToggle
  assume "modalInv s"
  then have "modalInv (toggleMobileNav s)" by (rule modalInv_shrink) simp_all
  with NavToggle show ?thesis by simp
qed

lemma modalInv_run: "modalInv s \<Longrightarrow> modalInv (run evs s)"
  unfolding run_def by (induction evs arbitrary: s) (simp_all add: modalInv_step)

lemma inDocument_after_click:
  assumes inv: "modalInv s" and m: "emergencyModalTree m \<in> set (bodyChildren s)"
    and t: "m \<le> t" "t \<le> m + 19"
  shows "inDocument m (dispatchClick t s) = (t \<noteq> m + 19 \<and> t \<noteq> m)"
proof -
  from inv obtain ks where ks: "clickListeners s = listenersOf ks" "separated ks"
      "\<forall>c \<in> set (bodyChildren s). \<exists>k \<in> set ks. c = emergencyModalTree k"
    unfolding modalInv_def by blast
  note body = dispatchClick_body [OF ks(2) ks(1) ks(3) m t]
  show ?thesis
  proof (cases "t = m + 19 \<or> t = m")
    case True
    with body have "bodyChildren (dispatchClick t s) = filter (\<lambda>c. \<not> isNode m c) (bodyChildren s)"
      by simp
    then have "\<not> inDocument m (dispatchClick t s)" by (simp add: inDocument_def)
    with True show ?thesis by auto
  next
    case False
    with body have "bodyChildren (dispatchClick t s) = bodyChildren s" by simp
    moreover from m have "filter (isNode m) (bodyChildren s) \<noteq> []"
      by (auto simp: filter_empty_conv isNode_tree intro!: bexI [of _ "emergencyModalTree m"])
    ultimately have "inDocument m (dispatchClick t s)" by (simp add: inDocument_def)
    with False show ?thesis by simp
  qed
qed

lemma insideContent_tree:
  "insideContent t (emergencyModalTree m) = (m + 1 \<le> t \<and> t \<le> m + 19)"
proof (cases "m \<le> t \<and> t \<le> m + 19")
  case True
  define d where "d = t - m"
  from True have d: "d < 20" and td: "t = m + d" unfolding d_def by arith+
  from pathTo_inside [OF d, of m]
  have "(m + 1 \<in> set (pathTo t (emergencyModalTree m))) = (d \<noteq> 0)" unfolding td by blast
  then show ?thesis using True td
    by (auto simp add: insideContent_def querySelector_content)
next
  case False
  then have "pathTo t (emergencyModalTree m) = []" by (intro pathTo_outside) arith
  with False show ?thesis by (auto simp add: insideContent_def querySelector_content)
qed

text \<open>
  C7. Take any page that had no script-built node when it was loaded, and any events
  since. For a modal that is in the document now: a click on its close control takes it
  out of the document; a click whose target is the modal element itself takes it out; a
  click whose target lies in the content region, the close control apart, leaves it in.
\<close>

theorem modal_dismissal:
  assumes "bodyChildren s0 = []" and "clickListeners s0 = []"
    and "emergencyModalTree m \<in> set (bodyChildren (run evs s0))"
  shows "(\<exists>c. closeControl (emergencyModalTree m) = Some c \<and>
              \<not> inDocument m (dispatchClick c (run evs s0))) \<and>
         \<not> inDocument m (dispatchClick m (run evs s0)) \<and>
         (\<forall>t. insideContent t (emergencyModalTree m) \<and>
                closeControl (emergencyModalTree m) \<noteq> Some t \<longrightarrow>
              inDocument m (dispatchClick t (run evs s0)))"
proof -
  have inv: "modalInv (run evs s0)"
    using assms(1,2) by (intro modalInv_run modalInv_initial)
  note click = inDocument_after_click [OF inv assms(3)]
  have "\<not> inDocument m (dispatchClick (m + 19) (run evs s0))"
    using click [of "m + 19"] by simp
  then have close: "\<exists>c. closeControl (emergencyModalTree m) = Some c \<and>
              \<not> inDocument m (dispatchClick c (run evs s0))"
    by (simp add: closeControl_tree)
  have backdrop: "\<not> inDocument m (dispatchClick m (run evs s0))"
    using click [of m] by simp
  have inside: "inDocument m (dispatchClick t (run evs s0))"
    if "insideContent t (emergencyModalTree m)" "closeControl (emergencyModalTree m) \<noteq> Some t"
    for t
  proof -
    from that have "m + 1 \<le> t" "t \<le> m + 19" "t \<noteq> m + 19"
      by (auto simp: insideContent_tree closeControl_tree)
    then show ?thesis using click [of t] by simp
  qed
  from close backdrop inside show ?thesis by blast
qed

lemma run_example:
  "bodyChildren (run [EmergencyActivation, NavToggle, EmergencyActivation] examplePage) =
     [emergencyModalTree 0, emergencyModalTree 20]"
  by (simp add: run_def showEmergencyResources_result examplePage_refs)

theorem modal_dismissal_witness:
  "bodyChildren examplePage = [] \<and> clickListeners examplePage = [] \<and>
   emergencyModalTree 0 \<in>
     set (bodyChildren (run [EmergencyActivation, NavToggle, EmergencyActivation] examplePage)) \<and>
   \<not> inDocument 0
       (dispatchClick 19 (run [EmergencyActivation, NavToggle, EmergencyActivation] examplePage)) \<and>
   \<not> inDocument 0
       (dispatchClick 0 (run [EmergencyActivation, NavToggle, EmergencyActivation] examplePage)) \<and>
   inDocument 0
       (dispatchClick 8 (run [EmergencyActivation, NavToggle, EmergencyActivation] examplePage))"
proof -
  have m: "emergencyModalTree 0 \<in>
     set (bodyChildren (run [EmergencyActivation, NavToggle, EmergencyActivation] examplePage))"
    by (simp add: run_example)
  have c: "closeControl (emergencyModalTree 0) = Some 19"
    using closeControl_tree [of 0] by simp
  have i: "insideContent 8 (emergencyModalTree 0)" by (simp add: insideContent_tree)
  from modal_dismissal [OF examplePage_refs(7) examplePage_refs(8) m] c i m
  show ?thesis by (simp add: examplePage_refs)
qed

text \<open>
  C10. While a modal is in the document, an Escape keydown does not take it out: all the
  keydown does is toggle the mobile navigation when that is open, and nothing at all when
  it is closed.
\<close>

theorem escape_keeps_modal:
  "inDocument m s \<Longrightarrow>
   inDocument m (dispatchKeydown ''Escape'' s) \<and>
   bodyChildren (dispatchKeydown ''Escape'' s) = bodyChildren s \<and>
   (navigationActive s \<longrightarrow> dispatchKeydown ''Escape'' s = toggleMobileNav s) \<and>
   (\<not> navigationActive s \<longrightarrow> dispatchKeydown ''Escape'' s = s)"
  by (simp add: inDocument_def) (simp add: dispatchKeydown_def handleKeyboardNavigation_def)

theorem escape_keeps_modal_witness:
  "inDocument 0 (showEmergencyResources examplePage) \<and>
   \<not> navigationActive (showEmergencyResources examplePage) \<and>
   inDocument 0 (dispatchKeydown ''Escape'' (showEmergencyResources examplePage)) \<and>
   dispatchKeydown ''Escape'' (showEmergencyResources examplePage) =
     showEmergencyResources examplePage \<and>
   inDocument 0 (toggleMobileNav (showEmergencyResources examplePage)) \<and>
   navigationActive (toggleMobileNav (showEmergencyResources examplePage)) \<and>
   inDocument 0 (dispatchKeydown ''Escape'' (toggleMobileNav (showEmergencyResources examplePage))) \<and>
   \<not> navigationActive
       (dispatchKeydown ''Escape'' (toggleMobileNav (showEmergencyResources examplePage)))"
proof -
  have a: "inDocument 0 (showEmergencyResources examplePage)"
    by (simp add: inDocument_def showEmergencyResources_result examplePage_refs isNode_tree)
  have b: "inDocument 0 (toggleMobileNav (showEmergencyResources examplePage))"
    using a by (simp add: inDocument_def)
  have n: "\<not> navigationActive (showEmergencyResources examplePage)"
    by (simp add: showEmergencyResources_result examplePage_refs)
  have o: "navigationActive (toggleMobileNav (showEmergencyResources examplePage))"
    using n by simp
  from escape_keeps_modal [OF a] n
  have 1: "inDocument 0 (dispatchKeydown ''Escape'' (showEmergencyResources examplePage))"
    and 2: "dispatchKeydown ''Escape'' (showEmergencyResources examplePage) =
              showEmergencyResources examplePage"
    by blast+
  from escape_keeps_modal [OF b] o
  have 3: "inDocument 0
             (dispatchKeydown ''Escape'' (toggleMobileNav (showEmergencyResources examplePage)))"
    and 4: "dispatchKeydown ''Escape'' (toggleMobileNav (showEmergencyResources examplePage)) =
              toggleMobileNav (toggleMobileNav (showEmergencyResources examplePage))"
    by blast+
  have 5: "\<not> navigationActive
       (dispatchKeydown ''Escape'' (toggleMobileNav (showEmergencyResources examplePage)))"
    unfolding 4 using n by simp
  from a b n o 1 2 3 5 show ?thesis by blast
qed

section \<open>Properties of the debounce utility\<close>














end
